theory Spec2Isabelle
  imports Complex_Main
begin

section \<open>JavaScript numbers\<close>

text \<open>
  The component computes on JavaScript numbers. A number is modelled as either \<open>NaN\<close> or
  a real: finite doubles are taken as the exact reals they denote, so rounding, overflow,
  the two infinities and the sign of zero are outside the model. \<open>undefined\<close> and
  \<open>null\<close> are \<open>None\<close> of an option type. The operators follow ECMAScript on
  this fragment: every arithmetic operation with a \<open>NaN\<close> operand is \<open>NaN\<close>, every
  comparison with a \<open>NaN\<close> operand is false. A division by zero, which JavaScript answers
  with an infinity or with \<open>NaN\<close>, is \<open>NaN\<close> here.
\<close>

datatype number = NaN | Num real

fun isNaN :: "number \<Rightarrow> bool" where
  "isNaN NaN = True"
| "isNaN (Num x) = False"

fun num_add :: "number \<Rightarrow> number \<Rightarrow> number" where
  "num_add (Num a) (Num b) = Num (a + b)"
| "num_add _ _ = NaN"


fun num_mul :: "number \<Rightarrow> number \<Rightarrow> number" where
  "num_mul (Num a) (Num b) = Num (a * b)"
| "num_mul _ _ = NaN"

fun num_div :: "number \<Rightarrow> number \<Rightarrow> number" where
  "num_div (Num a) (Num b) = (if b = 0 then NaN else Num (a / b))"
| "num_div _ _ = NaN"

fun num_lt :: "number \<Rightarrow> number \<Rightarrow> bool" where
  "num_lt (Num a) (Num b) = (a < b)"
| "num_lt _ _ = False"

fun num_le :: "number \<Rightarrow> number \<Rightarrow> bool" where
  "num_le (Num a) (Num b) = (a \<le> b)"
| "num_le _ _ = False"

definition num_gt :: "number \<Rightarrow> number \<Rightarrow> bool" where
  "num_gt a b = num_lt b a"

definition num_ge :: "number \<Rightarrow> number \<Rightarrow> bool" where
  "num_ge a b = num_le b a"

text \<open>\<open>a === b\<close> on numbers: \<open>NaN\<close> is not equal to itself.\<close>

fun strict_eq :: "number \<Rightarrow> number \<Rightarrow> bool" where
  "strict_eq (Num a) (Num b) = (a = b)"
| "strict_eq _ _ = False"

fun Math_ceil :: "number \<Rightarrow> number" where
  "Math_ceil (Num a) = Num (of_int \<lceil>a\<rceil>)"
| "Math_ceil NaN = NaN"

fun Math_min :: "number \<Rightarrow> number \<Rightarrow> number" where
  "Math_min (Num a) (Num b) = Num (min a b)"
| "Math_min _ _ = NaN"


text \<open>
  \<open>x || d\<close> for a number or \<open>undefined\<close> on the left: the falsy values
  \<open>undefined\<close>, \<open>NaN\<close> and \<open>0\<close> give the right operand.
\<close>

fun or_else :: "number option \<Rightarrow> number \<Rightarrow> number" where
  "or_else None d = d"
| "or_else (Some NaN) d = d"
| "or_else (Some (Num x)) d = (if x = 0 then d else Num x)"

section \<open>The form schema\<close>

text \<open>
  \<open>loanFormSchema\<close> is a zod object of three fields, each
  \<open>z.coerce.number({invalid_type_error}).min(v, msg).max(v, msg).optional()\<close>.
  The form values are numbers or \<open>undefined\<close> already, so the coercion is the identity.
  zod accepts \<open>undefined\<close> for an optional field, reports the type error for \<open>NaN\<close>,
  and runs every check on a number: \<open>min\<close> fails below its bound, \<open>max\<close> above it,
  both bounds inclusive. The result of a field is the list of the messages of its issues;
  the empty list is success.
\<close>

datatype check = Min real string | Max real string

fun runCheck :: "check \<Rightarrow> real \<Rightarrow> string list" where
  "runCheck (Min v msg) x = (if x < v then [msg] else [])"
| "runCheck (Max v msg) x = (if x > v then [msg] else [])"

fun coerce_number_optional :: "string \<Rightarrow> check list \<Rightarrow> number option \<Rightarrow> string list" where
  "coerce_number_optional invalid_type_error checks None = []"
| "coerce_number_optional invalid_type_error checks (Some NaN) = [invalid_type_error]"
| "coerce_number_optional invalid_type_error checks (Some (Num x)) =
     concat (map (\<lambda>c. runCheck c x) checks)"

definition loanFormSchema_loanAmount :: "number option \<Rightarrow> string list" where
  "loanFormSchema_loanAmount =
     coerce_number_optional ''Please enter a valid number''
       [Min 1 ''Loan amount must be greater than 0'',
        Max 1000000 ''Loan amount must be less than 1,000,000'']"

definition loanFormSchema_months :: "number option \<Rightarrow> string list" where
  "loanFormSchema_months =
     coerce_number_optional ''Please enter a valid number''
       [Min 1 ''Months must be at least 1'',
        Max 360 ''Months cannot exceed 360'']"

definition loanFormSchema_interestRatePerMonth :: "number option \<Rightarrow> string list" where
  "loanFormSchema_interestRatePerMonth =
     coerce_number_optional ''Please enter a valid number''
       [Min (1 / 10) ''Interest rate must be at least 0.1%'',
        Max 100 ''Interest rate cannot exceed 100%'']"

section \<open>Form values and component state\<close>

record LoanForm =
  loanAmount :: "number option"
  months :: "number option"
  interestRatePerMonth :: "number option"

text \<open>The \<open>defaultValues\<close> of \<open>useForm\<close>: no loan amount, one month, ten percent.\<close>

definition defaultValues :: LoanForm where
  "defaultValues =
     \<lparr>loanAmount = None, months = Some (Num 1), interestRatePerMonth = Some (Num 10)\<rparr>"

record row =
  month :: number
  interestAmount :: number
  totalAmount :: number
  monthlyPayment :: number

text \<open>
  The string \<open>rate.toString()\<close> written to the store is kept symbolic: \<open>ToString n\<close> is
  the string form of the number \<open>n\<close>.
\<close>

datatype numstr = ToString number

definition CUSTOM_INTEREST_RATE_KEY :: string where
  "CUSTOM_INTEREST_RATE_KEY = ''customInterestRate''"

text \<open>
  The state of the component: the form values, the two pieces of \<open>useState\<close> the
  handlers below touch, the contents of \<open>AsyncStorage\<close>, and the alerts shown so far
  (title and message, newest first).
\<close>

record state =
  form :: LoanForm
  selectedMonth :: "number option"
  modalInterestRate :: "number option"
  showInterestRateModal :: bool
  storage :: "string \<rightharpoonup> numstr"
  alerts :: "(string \<times> string) list"

section \<open>The schedule generator\<close>

text \<open>
  \<open>calculateInterest\<close>. Its parameters are typed \<open>number\<close>, so the three comparisons
  with \<open>undefined\<close> of the source are false and only the \<open>isNaN\<close> tests remain.
\<close>

definition calculateInterest :: "number \<Rightarrow> number \<Rightarrow> number \<Rightarrow> number" where
  "calculateInterest loan rate numMonths =
     (if isNaN loan \<or> isNaN rate \<or> isNaN numMonths then Num 0
      else num_mul (num_mul loan (num_div rate (Num 100))) numMonths)"

text \<open>The body of the \<open>for\<close> loop of \<open>generateTableData\<close> at counter \<open>i\<close>: the row it pushes.\<close>

definition tableRow :: "number \<Rightarrow> number \<Rightarrow> number \<Rightarrow> row" where
  "tableRow loan rate i =
     (let interest = calculateInterest loan rate i;
          total = num_add loan interest;
          payment = (if num_gt i (Num 0) then num_div total i else total)
      in \<lparr>month = i, interestAmount = interest, totalAmount = total,
          monthlyPayment = payment\<rparr>)"

text \<open>
  \<open>for (let i = 1; i <= actualMonthsToShow; i++)\<close>, started at any counter. The counter
  takes integer values only; the bound is a number, and the test against \<open>NaN\<close> fails.
\<close>

function tableLoop :: "number \<Rightarrow> number \<Rightarrow> int \<Rightarrow> number \<Rightarrow> row list" where
  "tableLoop loan rate i actualMonthsToShow =
     (if num_le (Num (of_int i)) actualMonthsToShow
      then tableRow loan rate (Num (of_int i)) # tableLoop loan rate (i + 1) actualMonthsToShow
      else [])"
  by pat_completeness auto
termination
proof (relation "measure (\<lambda>(loan, rate, i, b). case b of NaN \<Rightarrow> 0 | Num n \<Rightarrow> nat (\<lfloor>n\<rfloor> + 1 - i))")
  show "wf (measure (\<lambda>(loan, rate, i, b). case b of NaN \<Rightarrow> 0 | Num n \<Rightarrow> nat (\<lfloor>n\<rfloor> + 1 - i)))"
    by simp
next
  fix loan rate :: number and i :: int and b :: number
  assume le: "num_le (Num (of_int i)) b"
  then obtain n where b: "b = Num n" and "of_int i \<le> n"
    by (cases b) auto
  then have "i \<le> \<lfloor>n\<rfloor>"
    by (simp add: le_floor_iff)
  then show "((loan, rate, i + 1, b), (loan, rate, i, b))
      \<in> measure (\<lambda>(loan, rate, i, b). case b of NaN \<Rightarrow> 0 | Num n \<Rightarrow> nat (\<lfloor>n\<rfloor> + 1 - i))"
    using b by simp
qed

declare tableLoop.simps [simp del]

definition generateTableData :: "LoanForm \<Rightarrow> row list" where
  "generateTableData f =
     (case (loanAmount f, interestRatePerMonth f, months f) of
        (Some loan, Some rate, Some m) \<Rightarrow>
          if num_ge m (Num 1)
          then (let actualMonthsToShow =
                      Math_min (num_mul (Math_ceil (num_div m (Num 12))) (Num 12)) (Num 360)
                in tableLoop loan rate 1 actualMonthsToShow)
          else []
      | _ \<Rightarrow> [])"

section \<open>Selected month\<close>

text \<open>The effect that follows \<open>months\<close>, \<open>loanAmount\<close> and \<open>interestRatePerMonth\<close>.\<close>

definition selectedMonthEffect :: "state \<Rightarrow> state" where
  "selectedMonthEffect st =
     (case months (form st) of
        Some m \<Rightarrow> st\<lparr>selectedMonth := Some m\<rparr>
      | None \<Rightarrow> st\<lparr>selectedMonth := None\<rparr>)"

text \<open>
  \<open>getSelectedMonthSummary\<close>: a row, or \<open>None\<close> for the \<open>null\<close> of an empty table and
  for the \<open>undefined\<close> of a search that finds nothing.
\<close>

definition getSelectedMonthSummary :: "state \<Rightarrow> row option" where
  "getSelectedMonthSummary st =
     (let tableData = generateTableData (form st)
      in case selectedMonth st of
           None \<Rightarrow> (if length tableData > 0 then Some (tableData ! 0) else None)
         | Some sel \<Rightarrow> find (\<lambda>item. strict_eq (month item) sel) tableData)"

section \<open>Event handlers\<close>

text \<open>
  \<open>handleLoanAmountChange\<close>; \<open>parseFloat\<close> is a parameter. Text that does not parse
  gives \<open>NaN\<close>, which the handler turns into \<open>undefined\<close>.
\<close>

definition handleLoanAmountChange :: "(string \<Rightarrow> number) \<Rightarrow> string \<Rightarrow> LoanForm \<Rightarrow> LoanForm" where
  "handleLoanAmountChange parseFloat text f =
     (let num = parseFloat text
      in f\<lparr>loanAmount := (if isNaN num then None else Some num)\<rparr>)"

text \<open>
  \<open>handleMonthsBlur\<close>. The second and third tests of the source's disjunction are the
  two branches of the \<open>case\<close>: \<open>currentMonths < 1\<close> is reached for a defined value only.
\<close>

definition handleMonthsBlur :: "LoanForm \<Rightarrow> LoanForm" where
  "handleMonthsBlur f =
     (let currentMonths = months f
      in if isNaN (or_else currentMonths (Num 0))
            \<or> (case currentMonths of None \<Rightarrow> True | Some c \<Rightarrow> num_lt c (Num 1))
         then f\<lparr>months := Some (Num 1)\<rparr>
         else if (case currentMonths of None \<Rightarrow> False | Some c \<Rightarrow> num_gt c (Num 360))
         then f\<lparr>months := Some (Num 360)\<rparr>
         else f)"

text \<open>
  \<open>saveCustomInterestRate\<close>. The flag says whether \<open>AsyncStorage.setItem\<close> rejects;
  then the \<open>catch\<close> branch shows the alert and nothing else changes.
\<close>

definition saveCustomInterestRate :: "bool \<Rightarrow> number \<Rightarrow> state \<Rightarrow> state" where
  "saveCustomInterestRate rejects rate st =
     (if rejects
      then st\<lparr>alerts := (''Error'', ''Could not save interest rate.'') # alerts st\<rparr>
      else st\<lparr>storage := (storage st)(CUSTOM_INTEREST_RATE_KEY \<mapsto> ToString rate),
              form := (form st)\<lparr>interestRatePerMonth := Some rate\<rparr>,
              showInterestRateModal := False\<rparr>)"

definition handleSaveInterestRate :: "bool \<Rightarrow> state \<Rightarrow> state" where
  "handleSaveInterestRate rejects st =
     (case modalInterestRate st of
        Some rate \<Rightarrow>
          if \<not> isNaN rate then saveCustomInterestRate rejects rate st
          else st\<lparr>alerts := (''Invalid Input'',
                    ''Please enter a valid number for interest rate.'') # alerts st\<rparr>
      | None \<Rightarrow> st\<lparr>alerts := (''Invalid Input'',
                    ''Please enter a valid number for interest rate.'') # alerts st\<rparr>)"

text \<open>
  The effect that loads the saved rate on mount. \<open>parseFloat\<close> of the string form of a
  number is that number. The flags say whether \<open>getItem\<close> and \<open>removeItem\<close> reject;
  then the \<open>catch\<close> branch shows the alert and the statements after the rejected call
  do not run.
\<close>

fun parseFloat_numstr :: "numstr \<Rightarrow> number" where
  "parseFloat_numstr (ToString n) = n"

definition loadCustomInterestRate :: "bool \<Rightarrow> bool \<Rightarrow> state \<Rightarrow> state" where
  "loadCustomInterestRate getRejects removeRejects st =
     (if getRejects
      then st\<lparr>alerts := (''Error'', ''Could not load saved interest rate.'') # alerts st\<rparr>
      else case storage st CUSTOM_INTEREST_RATE_KEY of
          None \<Rightarrow> st
        | Some storedRate \<Rightarrow>
            (let parsedRate = parseFloat_numstr storedRate
             in if \<not> isNaN parsedRate \<and> num_ge parsedRate (Num (1 / 10))
                  \<and> num_le parsedRate (Num 100)
                then st\<lparr>form := (form st)\<lparr>interestRatePerMonth := Some parsedRate\<rparr>\<rparr>
                else if removeRejects
                then st\<lparr>alerts :=
                        (''Error'', ''Could not load saved interest rate.'') # alerts st\<rparr>
                else st\<lparr>storage := (storage st)(CUSTOM_INTEREST_RATE_KEY := None),
                        form := (form st)\<lparr>interestRatePerMonth := Some (Num 10)\<rparr>\<rparr>))"

text \<open>
  The component as first rendered: the default form values, the initial values of the
  \<open>useState\<close> calls, an empty store and no alert.
\<close>

definition initialState :: state where
  "initialState =
     \<lparr>form = defaultValues, selectedMonth = None, modalInterestRate = None,
      showInterestRateModal = False, storage = Map.empty, alerts = []\<rparr>"

section \<open>The writers of the months field\<close>









section \<open>The loop as a map over the counter\<close>

lemma tableLoop_NaN: "tableLoop loan rate i NaN = []"
  by (simp add: tableLoop.simps)

lemma tableLoop_Num:
  "tableLoop loan rate i (Num n) = map (\<lambda>k. tableRow loan rate (Num (of_int k))) [i..\<lfloor>n\<rfloor>]"
proof (induction loan rate i "Num n" rule: tableLoop.induct)
  case (1 loan rate i)
  show ?case
  proof (cases "of_int i \<le> n")
    case True
    then have il: "i \<le> \<lfloor>n\<rfloor>" by (simp add: le_floor_iff)
    have "tableLoop loan rate i (Num n)
        = tableRow loan rate (Num (of_int i)) # tableLoop loan rate (i + 1) (Num n)"
      using True by (subst tableLoop.simps) simp
    also have "tableLoop loan rate (i + 1) (Num n)
        = map (\<lambda>k. tableRow loan rate (Num (of_int k))) [i + 1..\<lfloor>n\<rfloor>]"
      using True by (intro "1.hyps") simp
    finally show ?thesis
      using il by (simp add: upto_rec1 [of i "\<lfloor>n\<rfloor>"])
  next
    case False
    then have "\<not> i \<le> \<lfloor>n\<rfloor>" by (simp add: le_floor_iff)
    then show ?thesis
      using False by (subst tableLoop.simps) simp
  qed
qed

lemma actualMonthsToShow_Num:
  "Math_min (num_mul (Math_ceil (num_div (Num m) (Num 12))) (Num 12)) (Num 360)
     = Num (of_int (min (\<lceil>m / 12\<rceil> * 12) 360))"
  by (simp add: min_def)

lemma generateTableData_Num:
  assumes "loanAmount f = Some loan" "interestRatePerMonth f = Some rate"
    "months f = Some (Num m)" "1 \<le> m"
  shows "generateTableData f
     = map (\<lambda>k. tableRow loan rate (Num (of_int k))) [1..min (\<lceil>m / 12\<rceil> * 12) 360]"
  using assms
  by (simp add: generateTableData_def num_ge_def actualMonthsToShow_Num tableLoop_Num
      del: Math_min.simps num_mul.simps Math_ceil.simps num_div.simps)

lemma generateTableData_undefined:
  "loanAmount f = None \<or> interestRatePerMonth f = None \<or> months f = None
     \<Longrightarrow> generateTableData f = []"
  by (auto simp: generateTableData_def split: option.splits)

lemma horizon_int:
  fixes t :: int
  assumes "1 \<le> t" "t \<le> 360"
  shows "min (\<lceil>of_int t / (12::real)\<rceil> * 12) 360 = ((t + 11) div 12) * 12"
    and "t \<le> ((t + 11) div 12) * 12" and "((t + 11) div 12) * 12 \<le> 360"
    and "12 \<le> ((t + 11) div 12) * 12"
proof -
  have c: "\<lceil>of_int t / (12::real)\<rceil> = (t + 11) div 12"
  proof (rule ceiling_unique)
    have "12 * ((t + 11) div 12 - 1) < t" by presburger
    then have "of_int (12 * ((t + 11) div 12 - 1)) < (of_int t :: real)"
      by (simp only: of_int_less_iff)
    then show "of_int ((t + 11) div 12) - 1 < of_int t / (12::real)" by simp
    have "t \<le> 12 * ((t + 11) div 12)" by presburger
    then have "(of_int t :: real) \<le> of_int (12 * ((t + 11) div 12))"
      by (simp only: of_int_le_iff)
    then show "of_int t / (12::real) \<le> of_int ((t + 11) div 12)" by simp
  qed
  show "t \<le> ((t + 11) div 12) * 12" by presburger
  show le: "((t + 11) div 12) * 12 \<le> 360" using assms by presburger
  show "12 \<le> ((t + 11) div 12) * 12" using assms by presburger
  show "min (\<lceil>of_int t / (12::real)\<rceil> * 12) 360 = ((t + 11) div 12) * 12"
    using le c by simp
qed

lemma month_tableRow: "month (tableRow loan rate i) = i"
  by (simp add: tableRow_def Let_def)

lemma tableRow_Num:
  assumes "0 < k"
  shows "tableRow (Num p) (Num r) (Num k)
     = \<lparr>month = Num k, interestAmount = Num (p * (r / 100) * k),
        totalAmount = Num (p + p * (r / 100) * k),
        monthlyPayment = Num ((p + p * (r / 100) * k) / k)\<rparr>"
  using assms by (simp add: tableRow_def calculateInterest_def num_gt_def)

lemma generateTableData_rows:
  assumes "row \<in> set (generateTableData f)"
  obtains loan rate k where "loanAmount f = Some loan" "interestRatePerMonth f = Some rate"
    "1 \<le> k" "k \<le> 360" "row = tableRow loan rate (Num (of_int k))"
proof -
  have "\<exists>loan rate m. loanAmount f = Some loan \<and> interestRatePerMonth f = Some rate
      \<and> months f = Some m \<and> num_ge m (Num 1)"
  proof (cases "loanAmount f")
    case None
    with assms show ?thesis by (simp add: generateTableData_def)
  next
    case l: (Some loan)
    show ?thesis
    proof (cases "interestRatePerMonth f")
      case None
      with assms l show ?thesis by (simp add: generateTableData_def)
    next
      case r: (Some rate)
      show ?thesis
      proof (cases "months f")
        case None
        with assms l r show ?thesis by (simp add: generateTableData_def)
      next
        case (Some m)
        with assms l r show ?thesis
          by (cases "num_ge m (Num 1)") (simp_all add: generateTableData_def)
      qed
    qed
  qed
  then obtain loan rate m where d: "loanAmount f = Some loan"
      "interestRatePerMonth f = Some rate" "months f = Some m" "num_ge m (Num 1)"
    by blast
  from d(4) obtain x where m: "m = Num x" and x: "1 \<le> x"
    by (cases m) (auto simp: num_ge_def)
  from assms obtain k where "1 \<le> k" "k \<le> min (\<lceil>x / 12\<rceil> * 12) 360"
      "row = tableRow loan rate (Num (of_int k))"
    using generateTableData_Num [OF d(1,2) d(3) [unfolded m] x] by auto
  with d(1,2) that show thesis by simp
qed

lemma generateTableData_int:
  assumes "loanAmount f = Some loan" "interestRatePerMonth f = Some rate"
    "months f = Some (Num (of_int t))" "1 \<le> t" "t \<le> 360"
  shows "generateTableData f
     = map (\<lambda>k. tableRow loan rate (Num (of_int k))) [1..((t + 11) div 12) * 12]"
  using generateTableData_Num [OF assms(1,2,3)] assms(4,5) horizon_int(1) [of t]
  by simp

lemma example_row_1:
  "\<lparr>month = Num 1, interestAmount = Num 100, totalAmount = Num 1100,
       monthlyPayment = Num 1100\<rparr>
     \<in> set (generateTableData \<lparr>loanAmount = Some (Num 1000), months = Some (Num 1),
         interestRatePerMonth = Some (Num 10)\<rparr>)"
proof -
  let ?f = "\<lparr>loanAmount = Some (Num 1000), months = Some (Num 1),
       interestRatePerMonth = Some (Num 10)\<rparr>"
  have "generateTableData ?f
      = map (\<lambda>k. tableRow (Num 1000) (Num 10) (Num (of_int k))) [1..((1 + 11) div 12) * 12]"
    by (rule generateTableData_int) simp_all
  moreover have "tableRow (Num 1000) (Num 10) (Num (of_int 1))
      = \<lparr>month = Num 1, interestAmount = Num 100, totalAmount = Num 1100,
         monthlyPayment = Num 1100\<rparr>"
    by (simp add: tableRow_Num)
  ultimately show ?thesis
    by (simp only: set_map) (rule image_eqI [where x = 1], simp_all)
qed

lemma example_row_12:
  "\<lparr>month = Num 12, interestAmount = Num 1200, totalAmount = Num 2200,
       monthlyPayment = Num (2200 / 12)\<rparr>
     \<in> set (generateTableData \<lparr>loanAmount = Some (Num 1000), months = Some (Num 1),
         interestRatePerMonth = Some (Num 10)\<rparr>)"
proof -
  let ?f = "\<lparr>loanAmount = Some (Num 1000), months = Some (Num 1),
       interestRatePerMonth = Some (Num 10)\<rparr>"
  have "generateTableData ?f
      = map (\<lambda>k. tableRow (Num 1000) (Num 10) (Num (of_int k))) [1..((1 + 11) div 12) * 12]"
    by (rule generateTableData_int) simp_all
  moreover have "tableRow (Num 1000) (Num 10) (Num (of_int 12))
      = \<lparr>month = Num 12, interestAmount = Num 1200, totalAmount = Num 2200,
         monthlyPayment = Num (2200 / 12)\<rparr>"
    by (simp add: tableRow_Num)
  ultimately show ?thesis
    by (simp only: set_map) (rule image_eqI [where x = 12], simp_all)
qed

section \<open>The default focus\<close>

lemma form_selectedMonthEffect: "form (selectedMonthEffect st) = form st"
  by (simp add: selectedMonthEffect_def split: option.splits)

lemma selectedMonth_selectedMonthEffect: "selectedMonth (selectedMonthEffect st) = months (form st)"
  by (simp add: selectedMonthEffect_def split: option.splits)

lemma find_month_upto:
  assumes "i \<le> t" and "t \<le> n"
  shows "find (\<lambda>item. strict_eq (month item) (Num (of_int t)))
           (map (\<lambda>k. tableRow loan rate (Num (of_int k))) [i..n])
         = Some (tableRow loan rate (Num (of_int t)))"
  using assms
proof (induction "nat (t - i)" arbitrary: i)
  case 0
  then have "i = t" by simp
  then show ?case using \<open>t \<le> n\<close> by (simp add: upto_rec1 [of t n] month_tableRow)
next
  case (Suc d)
  then have lt: "i < t" and in': "i \<le> n" by simp_all
  have "find (\<lambda>item. strict_eq (month item) (Num (of_int t)))
           (map (\<lambda>k. tableRow loan rate (Num (of_int k))) [i + 1..n])
         = Some (tableRow loan rate (Num (of_int t)))"
    using Suc by (intro Suc.hyps) simp_all
  then show ?case
    using lt in' by (simp add: upto_rec1 [of i n] month_tableRow)
qed

lemma summary_default:
  assumes "loanAmount (form st) = Some loan" and "interestRatePerMonth (form st) = Some rate"
    and "months (form st) = Some (Num (of_int t))" and "1 \<le> t" and "t \<le> 360"
  shows "getSelectedMonthSummary (selectedMonthEffect st)
       = Some (tableRow loan rate (Num (of_int t)))"
proof -
  have "t \<le> (t + 11) div 12 * 12" by presburger
  with assms(4) show ?thesis
    by (simp add: getSelectedMonthSummary_def form_selectedMonthEffect
        selectedMonth_selectedMonthEffect assms(3) generateTableData_int [OF assms]
        find_month_upto)
qed

lemma last_generateTableData:
  assumes "loanAmount f = Some loan" and "interestRatePerMonth f = Some rate"
    and "months f = Some (Num (of_int t))" and "1 \<le> t" and "t \<le> 360"
  shows "last (generateTableData f) = tableRow loan rate (Num (of_int ((t + 11) div 12 * 12)))"
proof -
  have "1 \<le> (t + 11) div 12 * 12" using assms(4) by presburger
  then show ?thesis
    by (simp add: generateTableData_int [OF assms] upto_rec2 [of 1 "(t + 11) div 12 * 12"])
qed

section \<open>Validation, blur and save, case by case\<close>

lemma loanFormSchema_loanAmount_accepts:
  "loanFormSchema_loanAmount (Some (Num x)) = [] \<longleftrightarrow> 1 \<le> x \<and> x \<le> 1000000"
  by (auto simp: loanFormSchema_loanAmount_def)

lemma handleMonthsBlur_cases:
  "months f = None \<Longrightarrow> months (handleMonthsBlur f) = Some (Num 1)"
  "months f = Some (Num x) \<Longrightarrow> x < 1 \<Longrightarrow> months (handleMonthsBlur f) = Some (Num 1)"
  "months f = Some (Num x) \<Longrightarrow> 360 < x \<Longrightarrow> months (handleMonthsBlur f) = Some (Num 360)"
  "months f = Some (Num x) \<Longrightarrow> 1 \<le> x \<Longrightarrow> x \<le> 360 \<Longrightarrow> handleMonthsBlur f = f"
  by (simp_all add: handleMonthsBlur_def Let_def num_gt_def)

lemma handleSaveInterestRate_writes:
  "storage (handleSaveInterestRate rejects st) = storage st
     \<or> (\<exists>rate. modalInterestRate st = Some rate \<and> \<not> isNaN rate \<and> \<not> rejects
          \<and> storage (handleSaveInterestRate rejects st)
              = (storage st)(CUSTOM_INTEREST_RATE_KEY \<mapsto> ToString rate))"
  by (simp add: handleSaveInterestRate_def saveCustomInterestRate_def split: option.splits)

section \<open>The months field never holds NaN\<close>







text \<open>
  On a \<open>NaN\<close>, which no reachable state holds, the blur handler would change nothing:
  its test \<open>isNaN(currentMonths || 0)\<close> reads \<open>NaN || 0\<close>, which is 0.
\<close>

lemma handleMonthsBlur_NaN_unchanged:
  "months f = Some NaN \<Longrightarrow> handleMonthsBlur f = f"
  by (simp add: handleMonthsBlur_def num_gt_def)

section \<open>Claims\<close>

text \<open>
  C1. Every row of the schedule generated from a principal \<open>p\<close> and a monthly rate
  \<open>r\<close> (numbers, not \<open>NaN\<close>) carries flat simple interest on the original principal:
  with \<open>m\<close> the row's month, \<open>interestAmount = p * (r / 100) * m\<close>,
  \<open>totalAmount = p + interestAmount\<close> and \<open>monthlyPayment = totalAmount / m\<close>.
\<close>

theorem row_formula:
  assumes "loanAmount f = Some (Num p)" and "interestRatePerMonth f = Some (Num r)"
    and "row \<in> set (generateTableData f)" and "month row = Num m"
  shows "interestAmount row = Num (p * (r / 100) * m)
       \<and> totalAmount row = Num (p + p * (r / 100) * m)
       \<and> monthlyPayment row = Num ((p + p * (r / 100) * m) / m)"
proof -
  from assms(3) obtain loan rate k where k: "loanAmount f = Some loan"
      "interestRatePerMonth f = Some rate" "1 \<le> k" "row = tableRow loan rate (Num (of_int k))"
    by (rule generateTableData_rows)
  from k(1,2) assms(1,2) have lr: "loan = Num p" "rate = Num r" by simp_all
  from k(4) assms(4) have m: "m = of_int k" by (simp add: month_tableRow)
  have "0 < (of_int k :: real)" using k(3) by simp
  from tableRow_Num [OF this, of p r] show ?thesis
    unfolding k(4) lr m by simp
qed

text \<open>
  The example of the specification: principal 1000 at 10 percent, term 1; the row of
  month 12 has interest 1200, total 2200 and payment 2200 / 12.
\<close>

theorem row_formula_witness:
  "loanAmount \<lparr>loanAmount = Some (Num 1000), months = Some (Num 1),
       interestRatePerMonth = Some (Num 10)\<rparr> = Some (Num 1000)
   \<and> interestRatePerMonth \<lparr>loanAmount = Some (Num 1000), months = Some (Num 1),
       interestRatePerMonth = Some (Num 10)\<rparr> = Some (Num 10)
   \<and> \<lparr>month = Num 12, interestAmount = Num 1200, totalAmount = Num 2200,
       monthlyPayment = Num (2200 / 12)\<rparr>
     \<in> set (generateTableData \<lparr>loanAmount = Some (Num 1000), months = Some (Num 1),
         interestRatePerMonth = Some (Num 10)\<rparr>)
   \<and> month \<lparr>month = Num 12, interestAmount = Num 1200, totalAmount = Num 2200,
       monthlyPayment = Num (2200 / 12)\<rparr> = Num 12
   \<and> interestAmount \<lparr>month = Num 12, interestAmount = Num 1200, totalAmount = Num 2200,
       monthlyPayment = Num (2200 / 12)\<rparr> = Num (1000 * (10 / 100) * 12)
   \<and> totalAmount \<lparr>month = Num 12, interestAmount = Num 1200, totalAmount = Num 2200,
       monthlyPayment = Num (2200 / 12)\<rparr> = Num (1000 + 1000 * (10 / 100) * 12)
   \<and> monthlyPayment \<lparr>month = Num 12, interestAmount = Num 1200, totalAmount = Num 2200,
       monthlyPayment = Num (2200 / 12)\<rparr> = Num ((1000 + 1000 * (10 / 100) * 12) / 12)"
  (is "?A \<and> ?B \<and> ?C \<and> ?D \<and> ?E")
proof -
  let ?f = "\<lparr>loanAmount = Some (Num 1000), months = Some (Num 1),
       interestRatePerMonth = Some (Num 10)\<rparr>"
  let ?row = "\<lparr>month = Num 12, interestAmount = Num 1200, totalAmount = Num 2200,
       monthlyPayment = Num (2200 / 12)\<rparr>"
  have a: "loanAmount ?f = Some (Num 1000)" and b: "interestRatePerMonth ?f = Some (Num 10)"
    by simp_all
  have "generateTableData ?f
      = map (\<lambda>k. tableRow (Num 1000) (Num 10) (Num (of_int k))) [1..((1 + 11) div 12) * 12]"
    by (rule generateTableData_int) simp_all
  moreover have "tableRow (Num 1000) (Num 10) (Num (of_int 12)) = ?row"
    by (simp add: tableRow_Num)
  ultimately have c: "?row \<in> set (generateTableData ?f)"
    by (simp only: set_map) (rule image_eqI [where x = 12], simp_all)
  have d: "month ?row = Num 12" by simp
  from row_formula [OF a b c d] a b c d show ?thesis by blast
qed

text \<open>
  C2. For a principal in \<open>[1, 1000000]\<close>, a rate in \<open>[0.1, 100]\<close> and an integer term
  \<open>t\<close> in \<open>[1, 360]\<close>, the schedule has exactly \<open>min (ceil (t / 12) * 12) 360\<close> rows,
  and their months are \<open>1, 2, ...\<close> up to that length, in this order.
\<close>

theorem schedule_length_and_months:
  assumes "loanAmount f = Some (Num p)" and "1 \<le> p" and "p \<le> 1000000"
    and "interestRatePerMonth f = Some (Num r)" and "1 / 10 \<le> r" and "r \<le> 100"
    and "months f = Some (Num (of_int t))" and "1 \<le> t" and "t \<le> 360"
  shows "int (length (generateTableData f)) = min (\<lceil>of_int t / (12::real)\<rceil> * 12) 360
       \<and> map month (generateTableData f)
           = map (\<lambda>k. Num (of_int k)) [1..int (length (generateTableData f))]"
proof -
  let ?h = "min (\<lceil>of_int t / (12::real)\<rceil> * 12) 360"
  have t: "(1::real) \<le> of_int t" using assms(8) by simp
  have g: "generateTableData f = map (\<lambda>k. tableRow (Num p) (Num r) (Num (of_int k))) [1..?h]"
    using assms(1,4,7) t by (rule generateTableData_Num)
  have "0 \<le> ?h" using horizon_int(1,4) [OF assms(8,9)] by simp
  then have len: "int (length (generateTableData f)) = ?h"
    by (simp add: g)
  have "map month (generateTableData f) = map (\<lambda>k. Num (of_int k)) [1..?h]"
    by (simp add: g month_tableRow comp_def)
  with len show ?thesis by simp
qed

text \<open>
  A term of 13 months shows 24 rows.
\<close>

theorem schedule_length_and_months_witness:
  "loanAmount \<lparr>loanAmount = Some (Num 1000), months = Some (Num (of_int 13)),
       interestRatePerMonth = Some (Num 10)\<rparr> = Some (Num 1000)
   \<and> (1::real) \<le> 1000 \<and> (1000::real) \<le> 1000000
   \<and> interestRatePerMonth \<lparr>loanAmount = Some (Num 1000), months = Some (Num (of_int 13)),
       interestRatePerMonth = Some (Num 10)\<rparr> = Some (Num 10)
   \<and> (1::real) / 10 \<le> 10 \<and> (10::real) \<le> 100
   \<and> months \<lparr>loanAmount = Some (Num 1000), months = Some (Num (of_int 13)),
       interestRatePerMonth = Some (Num 10)\<rparr> = Some (Num (of_int 13))
   \<and> (1::int) \<le> 13 \<and> (13::int) \<le> 360
   \<and> int (length (generateTableData \<lparr>loanAmount = Some (Num 1000),
         months = Some (Num (of_int 13)), interestRatePerMonth = Some (Num 10)\<rparr>)) = 24"
proof -
  let ?f = "\<lparr>loanAmount = Some (Num 1000), months = Some (Num (of_int 13)),
       interestRatePerMonth = Some (Num 10)\<rparr>"
  have h: "loanAmount ?f = Some (Num 1000)" "(1::real) \<le> 1000" "(1000::real) \<le> 1000000"
    "interestRatePerMonth ?f = Some (Num 10)" "(1::real) / 10 \<le> 10" "(10::real) \<le> 100"
    "months ?f = Some (Num (of_int 13))" "(1::int) \<le> 13" "(13::int) \<le> 360"
    by simp_all
  have c: "\<lceil>of_int 13 / (12::real)\<rceil> = 2"
    by (rule ceiling_unique) simp_all
  from schedule_length_and_months [OF h]
  have "int (length (generateTableData ?f)) = 24"
    by (simp add: c)
  with h show ?thesis by blast
qed

text \<open>
  C3. The claim is that saving a rate outside \<open>[0.1, 100]\<close> in the edit-rate modal is
  refused before the store is written. \<open>handleSaveInterestRate\<close> tests only that the
  rate is defined and not \<open>NaN\<close>: with 500 in the modal the store receives the string
  form of 500 and the form's rate becomes 500, a value the schema rejects and the
  loading effect removes from the store again.
\<close>

theorem save_writes_out_of_range_rate:
  "storage (handleSaveInterestRate False (initialState\<lparr>modalInterestRate := Some (Num 500)\<rparr>))
       CUSTOM_INTEREST_RATE_KEY = Some (ToString (Num 500))
   \<and> interestRatePerMonth (form (handleSaveInterestRate False
       (initialState\<lparr>modalInterestRate := Some (Num 500)\<rparr>))) = Some (Num 500)
   \<and> loanFormSchema_interestRatePerMonth (Some (Num 500)) = [''Interest rate cannot exceed 100%'']
   \<and> storage (loadCustomInterestRate False False (handleSaveInterestRate False
       (initialState\<lparr>modalInterestRate := Some (Num 500)\<rparr>))) CUSTOM_INTEREST_RATE_KEY = None"
  by (simp add: handleSaveInterestRate_def saveCustomInterestRate_def initialState_def
      loanFormSchema_interestRatePerMonth_def loadCustomInterestRate_def num_ge_def)

text \<open>
  C4, as amended. A numeric loan amount fails validation with a range error exactly when
  it is below 1 (the message says it must be greater than 0) or above 1000000; every
  value from 1 to 1000000, both bounds included, passes.
\<close>

theorem loanAmount_validation_range:
  "loanFormSchema_loanAmount (Some (Num x))
     = (if x < 1 then [''Loan amount must be greater than 0'']
        else if 1000000 < x then [''Loan amount must be less than 1,000,000'']
        else [])"
  by (simp add: loanFormSchema_loanAmount_def)

text \<open>
  The bounds 1 and 1000000 pass; 0 and 1000000.01 fail, each with its own message.
\<close>

theorem loanAmount_validation_range_witness:
  "loanFormSchema_loanAmount (Some (Num 1000000)) = []
   \<and> loanFormSchema_loanAmount (Some (Num 1)) = []
   \<and> loanFormSchema_loanAmount (Some (Num 0)) = [''Loan amount must be greater than 0'']
   \<and> loanFormSchema_loanAmount (Some (Num (100000001 / 100)))
       = [''Loan amount must be less than 1,000,000'']"
  using loanAmount_validation_range [of 1000000] loanAmount_validation_range [of 1]
    loanAmount_validation_range [of 0] loanAmount_validation_range [of "100000001 / 100"]
  by simp

text \<open>
  C4 as stated fails at 0.5, which lies strictly between 0 and 1000000 and is rejected
  by the schema's \<open>min(1)\<close>.
\<close>

theorem loanAmount_half_is_rejected:
  "loanFormSchema_loanAmount (Some (Num (1 / 2))) = [''Loan amount must be greater than 0'']"
  by (simp add: loanFormSchema_loanAmount_def)

text \<open>
  C5, as amended. With principal and rate defined and an integer term \<open>t\<close> in
  \<open>[1, 360]\<close>, the row in focus after the selection effect is the row of the schedule
  whose month is \<open>t\<close>; it is the last row of the schedule exactly when \<open>t\<close> is a
  multiple of 12.
\<close>

theorem default_focus_is_term_row:
  assumes "loanAmount (form st) = Some loan" and "interestRatePerMonth (form st) = Some rate"
    and "months (form st) = Some (Num (of_int t))" and "1 \<le> t" and "t \<le> 360"
  shows "\<exists>row. getSelectedMonthSummary (selectedMonthEffect st) = Some row
           \<and> month row = Num (of_int t)
           \<and> row \<in> set (generateTableData (form st))
           \<and> (row = last (generateTableData (form st)) \<longleftrightarrow> t mod 12 = 0)"
proof -
  let ?row = "tableRow loan rate (Num (of_int t))"
  let ?h = "(t + 11) div 12 * 12"
  have s: "getSelectedMonthSummary (selectedMonthEffect st) = Some ?row"
    using assms by (rule summary_default)
  have m: "month ?row = Num (of_int t)" by (rule month_tableRow)
  have th: "t \<le> ?h" by presburger
  have mem: "?row \<in> set (generateTableData (form st))"
    using assms(4) th by (simp add: generateTableData_int [OF assms])
  have l: "last (generateTableData (form st)) = tableRow loan rate (Num (of_int ?h))"
    using assms by (rule last_generateTableData)
  have e: "?row = last (generateTableData (form st)) \<longleftrightarrow> t mod 12 = 0"
  proof
    assume "?row = last (generateTableData (form st))"
    then have "month ?row = month (tableRow loan rate (Num (of_int ?h)))"
      by (simp only: l)
    then have "t = ?h" by (simp only: month_tableRow number.inject of_int_eq_iff)
    then show "t mod 12 = 0" by presburger
  next
    assume "t mod 12 = 0"
    then have "t = ?h" by presburger
    then show "?row = last (generateTableData (form st))"
      by (simp only: l)
  qed
  show ?thesis
    by (intro exI [of _ ?row] conjI s m mem e)
qed

text \<open>
  A term of 24 months: the row in focus is the last of the 24 rows.
\<close>

theorem default_focus_is_term_row_witness:
  "loanAmount (form (initialState\<lparr>form := \<lparr>loanAmount = Some (Num 1000),
       months = Some (Num (of_int 24)), interestRatePerMonth = Some (Num 10)\<rparr>\<rparr>))
     = Some (Num 1000)
   \<and> interestRatePerMonth (form (initialState\<lparr>form := \<lparr>loanAmount = Some (Num 1000),
       months = Some (Num (of_int 24)), interestRatePerMonth = Some (Num 10)\<rparr>\<rparr>))
     = Some (Num 10)
   \<and> months (form (initialState\<lparr>form := \<lparr>loanAmount = Some (Num 1000),
       months = Some (Num (of_int 24)), interestRatePerMonth = Some (Num 10)\<rparr>\<rparr>))
     = Some (Num (of_int 24))
   \<and> (1::int) \<le> 24 \<and> (24::int) \<le> 360
   \<and> (\<exists>row. getSelectedMonthSummary (selectedMonthEffect (initialState\<lparr>form :=
         \<lparr>loanAmount = Some (Num 1000), months = Some (Num (of_int 24)),
          interestRatePerMonth = Some (Num 10)\<rparr>\<rparr>)) = Some row
        \<and> month row = Num (of_int 24)
        \<and> row = last (generateTableData \<lparr>loanAmount = Some (Num 1000),
            months = Some (Num (of_int 24)), interestRatePerMonth = Some (Num 10)\<rparr>))"
proof -
  let ?f = "\<lparr>loanAmount = Some (Num 1000), months = Some (Num (of_int 24)),
       interestRatePerMonth = Some (Num 10)\<rparr>"
  let ?st = "initialState\<lparr>form := ?f\<rparr>"
  have h: "loanAmount (form ?st) = Some (Num 1000)"
    "interestRatePerMonth (form ?st) = Some (Num 10)"
    "months (form ?st) = Some (Num (of_int 24))" "(1::int) \<le> 24" "(24::int) \<le> 360"
    by simp_all
  have f: "form ?st = ?f" by simp
  from default_focus_is_term_row [OF h] obtain row where
    r: "getSelectedMonthSummary (selectedMonthEffect ?st) = Some row
      \<and> month row = Num (of_int 24)
      \<and> row \<in> set (generateTableData (form ?st))
      \<and> (row = last (generateTableData (form ?st)) \<longleftrightarrow> (24::int) mod 12 = 0)" ..
  then have "getSelectedMonthSummary (selectedMonthEffect ?st) = Some row
      \<and> month row = Num (of_int 24) \<and> row = last (generateTableData ?f)"
    by (simp only: f) simp
  then have "\<exists>row. getSelectedMonthSummary (selectedMonthEffect ?st) = Some row
      \<and> month row = Num (of_int 24) \<and> row = last (generateTableData ?f)" ..
  with h show ?thesis by (intro conjI)
qed

text \<open>
  C5 as stated fails at a term of 5 months: the row in focus has month 5, the last row of
  the schedule has month 12.
\<close>

theorem default_focus_not_last_row:
  "map_option month (getSelectedMonthSummary (selectedMonthEffect
       (initialState\<lparr>form := \<lparr>loanAmount = Some (Num 1000), months = Some (Num 5),
          interestRatePerMonth = Some (Num 10)\<rparr>\<rparr>))) = Some (Num 5)
   \<and> month (last (generateTableData \<lparr>loanAmount = Some (Num 1000), months = Some (Num 5),
          interestRatePerMonth = Some (Num 10)\<rparr>)) = Num 12"
proof -
  let ?f = "\<lparr>loanAmount = Some (Num 1000), months = Some (Num 5),
       interestRatePerMonth = Some (Num 10)\<rparr>"
  let ?st = "initialState\<lparr>form := ?f\<rparr>"
  have h: "loanAmount (form ?st) = Some (Num 1000)"
    "interestRatePerMonth (form ?st) = Some (Num 10)"
    "months (form ?st) = Some (Num (of_int 5))" "(1::int) \<le> 5" "(5::int) \<le> 360"
    by simp_all
  have f: "form ?st = ?f" by simp
  have "getSelectedMonthSummary (selectedMonthEffect ?st)
      = Some (tableRow (Num 1000) (Num 10) (Num (of_int 5)))"
    using h by (rule summary_default)
  then have a: "map_option month (getSelectedMonthSummary (selectedMonthEffect ?st))
      = Some (Num 5)"
    by (simp add: month_tableRow)
  have "last (generateTableData (form ?st))
      = tableRow (Num 1000) (Num 10) (Num (of_int ((5 + 11) div 12 * 12)))"
    using h by (rule last_generateTableData)
  then have "month (last (generateTableData ?f)) = Num 12"
    by (simp only: f month_tableRow) simp
  with a show ?thesis by blast
qed



text \<open>
  C7. For a positive principal and a positive rate, a row with a later month has a
  strictly larger interest amount and a strictly larger total amount, and its monthly
  payment is not larger (it is strictly smaller).
\<close>

theorem schedule_monotone:
  assumes "loanAmount f = Some (Num p)" and "0 < p"
    and "interestRatePerMonth f = Some (Num r)" and "0 < r"
    and "a \<in> set (generateTableData f)" and "b \<in> set (generateTableData f)"
    and "num_lt (month a) (month b)"
  shows "num_lt (interestAmount a) (interestAmount b)
       \<and> num_lt (totalAmount a) (totalAmount b)
       \<and> num_le (monthlyPayment b) (monthlyPayment a)
       \<and> num_lt (monthlyPayment b) (monthlyPayment a)"
proof -
  from assms(5) obtain la ra i where i: "loanAmount f = Some la"
      "interestRatePerMonth f = Some ra" "1 \<le> i" "a = tableRow la ra (Num (of_int i))"
    by (rule generateTableData_rows)
  from assms(6) obtain lb rb j where j: "loanAmount f = Some lb"
      "interestRatePerMonth f = Some rb" "1 \<le> j" "b = tableRow lb rb (Num (of_int j))"
    by (rule generateTableData_rows)
  from i(1,2) j(1,2) assms(1,3)
  have eq: "la = Num p" "ra = Num r" "lb = Num p" "rb = Num r" by simp_all
  define x y :: real where "x = of_int i" and "y = of_int j"
  have x: "0 < x" and y: "0 < y" using i(3) j(3) by (simp_all add: x_def y_def)
  have xy: "x < y" using assms(7) by (simp add: i(4) j(4) month_tableRow x_def y_def)
  have a: "a = \<lparr>month = Num x, interestAmount = Num (p * (r / 100) * x),
        totalAmount = Num (p + p * (r / 100) * x),
        monthlyPayment = Num ((p + p * (r / 100) * x) / x)\<rparr>"
    unfolding i(4) eq x_def [symmetric] using x by (rule tableRow_Num)
  have b: "b = \<lparr>month = Num y, interestAmount = Num (p * (r / 100) * y),
        totalAmount = Num (p + p * (r / 100) * y),
        monthlyPayment = Num ((p + p * (r / 100) * y) / y)\<rparr>"
    unfolding j(4) eq y_def [symmetric] using y by (rule tableRow_Num)
  define c where "c = p * (r / 100)"
  have c: "0 < c" using assms(2,4) by (simp add: c_def)
  have int: "c * x < c * y" using c xy by simp
  have pay: "(p + c * y) / y < (p + c * x) / x"
  proof -
    have "(p + c * y) / y = p / y + c" using y by (simp add: field_simps)
    moreover have "(p + c * x) / x = p / x + c" using x by (simp add: field_simps)
    moreover have "p / y < p / x" using x y xy assms(2) by (simp add: frac_less2)
    ultimately show ?thesis by simp
  qed
  have tot: "p + c * x < p + c * y" using int by simp
  have "num_lt (interestAmount a) (interestAmount b)"
    unfolding a b c_def [symmetric] using int by (simp only: row.simps num_lt.simps)
  moreover have "num_lt (totalAmount a) (totalAmount b)"
    unfolding a b c_def [symmetric] using tot by (simp only: row.simps num_lt.simps)
  moreover have "num_lt (monthlyPayment b) (monthlyPayment a)"
    unfolding a b c_def [symmetric] using pay by (simp only: row.simps num_lt.simps)
  moreover have "num_le (monthlyPayment b) (monthlyPayment a)"
    unfolding a b c_def [symmetric] using pay
    by (simp only: row.simps num_le.simps less_imp_le)
  ultimately show ?thesis by blast
qed

text \<open>
  Months 1 and 12 of the example: interest 100 and 1200, total 1100 and 2200, payment
  1100 and 2200 / 12.
\<close>

theorem schedule_monotone_witness:
  "loanAmount \<lparr>loanAmount = Some (Num 1000), months = Some (Num 1),
       interestRatePerMonth = Some (Num 10)\<rparr> = Some (Num 1000)
   \<and> (0::real) < 1000
   \<and> interestRatePerMonth \<lparr>loanAmount = Some (Num 1000), months = Some (Num 1),
       interestRatePerMonth = Some (Num 10)\<rparr> = Some (Num 10)
   \<and> (0::real) < 10
   \<and> \<lparr>month = Num 1, interestAmount = Num 100, totalAmount = Num 1100,
       monthlyPayment = Num 1100\<rparr>
     \<in> set (generateTableData \<lparr>loanAmount = Some (Num 1000), months = Some (Num 1),
         interestRatePerMonth = Some (Num 10)\<rparr>)
   \<and> \<lparr>month = Num 12, interestAmount = Num 1200, totalAmount = Num 2200,
       monthlyPayment = Num (2200 / 12)\<rparr>
     \<in> set (generateTableData \<lparr>loanAmount = Some (Num 1000), months = Some (Num 1),
         interestRatePerMonth = Some (Num 10)\<rparr>)
   \<and> num_lt (month \<lparr>month = Num 1, interestAmount = Num 100, totalAmount = Num 1100,
       monthlyPayment = Num 1100\<rparr>)
       (month \<lparr>month = Num 12, interestAmount = Num 1200, totalAmount = Num 2200,
       monthlyPayment = Num (2200 / 12)\<rparr>)
   \<and> num_lt (Num 100) (Num 1200) \<and> num_lt (Num 1100) (Num 2200)
   \<and> num_le (Num (2200 / 12)) (Num 1100)"
proof -
  let ?f = "\<lparr>loanAmount = Some (Num 1000), months = Some (Num 1),
       interestRatePerMonth = Some (Num 10)\<rparr>"
  let ?a = "\<lparr>month = Num 1, interestAmount = Num 100, totalAmount = Num 1100,
       monthlyPayment = Num 1100\<rparr>"
  let ?b = "\<lparr>month = Num 12, interestAmount = Num 1200, totalAmount = Num 2200,
       monthlyPayment = Num (2200 / 12)\<rparr>"
  have h: "loanAmount ?f = Some (Num 1000)" "(0::real) < 1000"
    "interestRatePerMonth ?f = Some (Num 10)" "(0::real) < 10"
    by simp_all
  have m: "num_lt (month ?a) (month ?b)" by simp
  from schedule_monotone [OF h example_row_1 example_row_12 m]
  have "num_lt (Num 100) (Num 1200) \<and> num_lt (Num 1100) (Num 2200)
      \<and> num_le (Num (2200 / 12)) (Num 1100)"
    by simp
  with h m example_row_1 example_row_12 show ?thesis by blast
qed

text \<open>
  C8. When the principal, the rate or the term is undefined the schedule is empty; and
  when the loan amount text does not parse (\<open>parseFloat\<close> gives \<open>NaN\<close>), the change
  handler stores no value, so the schedule is empty as well. The generator is a total
  function: it has no error result.
\<close>

theorem absent_input_gives_empty_schedule:
  "(loanAmount f = None \<or> interestRatePerMonth f = None \<or> months f = None
      \<longrightarrow> generateTableData f = [])
   \<and> (isNaN (parseFloat input)
      \<longrightarrow> loanAmount (handleLoanAmountChange parseFloat input g) = None
        \<and> generateTableData (handleLoanAmountChange parseFloat input g) = [])"
proof (intro conjI impI)
  assume "loanAmount f = None \<or> interestRatePerMonth f = None \<or> months f = None"
  then show "generateTableData f = []" by (rule generateTableData_undefined)
next
  assume n: "isNaN (parseFloat input)"
  then show u: "loanAmount (handleLoanAmountChange parseFloat input g) = None"
    by (simp add: handleLoanAmountChange_def Let_def)
  then show "generateTableData (handleLoanAmountChange parseFloat input g) = []"
    by (simp add: generateTableData_undefined)
qed

text \<open>
  An undefined term, and the text \<open>abc\<close> under a \<open>parseFloat\<close> that reads only \<open>12\<close>.
\<close>

theorem absent_input_gives_empty_schedule_witness:
  "months \<lparr>loanAmount = Some (Num 1000), months = None,
       interestRatePerMonth = Some (Num 10)\<rparr> = None
   \<and> generateTableData \<lparr>loanAmount = Some (Num 1000), months = None,
       interestRatePerMonth = Some (Num 10)\<rparr> = []
   \<and> isNaN ((\<lambda>s. if s = ''12'' then Num 12 else NaN) ''abc'')
   \<and> generateTableData (handleLoanAmountChange (\<lambda>s. if s = ''12'' then Num 12 else NaN) ''abc''
        \<lparr>loanAmount = Some (Num 1000), months = Some (Num 12),
         interestRatePerMonth = Some (Num 10)\<rparr>) = []"
proof -
  let ?f = "\<lparr>loanAmount = Some (Num 1000), months = None,
       interestRatePerMonth = Some (Num 10)\<rparr>"
  let ?g = "\<lparr>loanAmount = Some (Num 1000), months = Some (Num 12),
         interestRatePerMonth = Some (Num 10)\<rparr>"
  let ?pf = "\<lambda>s. if s = ''12'' then Num 12 else NaN"
  have a: "months ?f = None" by simp
  have b: "isNaN (?pf ''abc'')" by simp
  from absent_input_gives_empty_schedule
    [where f = ?f and parseFloat = ?pf and input = "''abc''" and g = ?g] a b
  show ?thesis by blast
qed

text \<open>
  C9. Every row of the schedule has a month of at least 1, so the test \<open>i > 0\<close> of the
  loop body holds at every row: the monthly payment is always the total divided by the
  month, a nonzero divisor, and never the undivided total of the other branch.
\<close>

theorem row_month_positive:
  assumes "row \<in> set (generateTableData f)"
  shows "num_ge (month row) (Num 1) \<and> num_gt (month row) (Num 0)
       \<and> (\<exists>loan rate. loanAmount f = Some loan \<and> interestRatePerMonth f = Some rate
            \<and> monthlyPayment row
                = num_div (num_add loan (calculateInterest loan rate (month row))) (month row))"
proof -
  from assms obtain loan rate k where k: "loanAmount f = Some loan"
      "interestRatePerMonth f = Some rate" "1 \<le> k" "row = tableRow loan rate (Num (of_int k))"
    by (rule generateTableData_rows)
  have m: "month row = Num (of_int k)" by (simp add: k(4) month_tableRow)
  have pos: "num_gt (Num (of_int k)) (Num 0)" using k(3) by (simp add: num_gt_def)
  have "monthlyPayment row
      = num_div (num_add loan (calculateInterest loan rate (month row))) (month row)"
    unfolding m unfolding k(4) using pos by (simp add: tableRow_def Let_def)
  with k(1,2,3) m pos show ?thesis by (simp add: num_ge_def)
qed

text \<open>
  The first row of the example.
\<close>

theorem row_month_positive_witness:
  "\<lparr>month = Num 1, interestAmount = Num 100, totalAmount = Num 1100,
       monthlyPayment = Num 1100\<rparr>
     \<in> set (generateTableData \<lparr>loanAmount = Some (Num 1000), months = Some (Num 1),
         interestRatePerMonth = Some (Num 10)\<rparr>)
   \<and> num_ge (month \<lparr>month = Num 1, interestAmount = Num 100, totalAmount = Num 1100,
       monthlyPayment = Num 1100\<rparr>) (Num 1)
   \<and> num_gt (month \<lparr>month = Num 1, interestAmount = Num 100, totalAmount = Num 1100,
       monthlyPayment = Num 1100\<rparr>) (Num 0)"
  using row_month_positive [OF example_row_1] example_row_1 by blast

text \<open>
  C10, as amended. With principal and rate defined and an integer term \<open>t\<close> in
  \<open>[1, 360]\<close>, the schedule has at least \<open>t\<close> rows and contains a row whose month is
  \<open>t\<close>, so the default focus on the term's row finds a row.
\<close>

theorem term_row_exists:
  assumes "loanAmount (form st) = Some loan" and "interestRatePerMonth (form st) = Some rate"
    and "months (form st) = Some (Num (of_int t))" and "1 \<le> t" and "t \<le> 360"
  shows "t \<le> int (length (generateTableData (form st)))
       \<and> Num (of_int t) \<in> month ` set (generateTableData (form st))
       \<and> getSelectedMonthSummary (selectedMonthEffect st) \<noteq> None"
proof -
  let ?h = "(t + 11) div 12 * 12"
  have th: "t \<le> ?h" by presburger
  then have h0: "0 \<le> ?h" using assms(4) by linarith
  have g: "generateTableData (form st)
      = map (\<lambda>k. tableRow loan rate (Num (of_int k))) [1..?h]"
    using assms by (rule generateTableData_int)
  have a: "t \<le> int (length (generateTableData (form st)))"
    using th h0 by (simp add: g)
  have "tableRow loan rate (Num (of_int t)) \<in> set (generateTableData (form st))"
    using assms(4) th by (simp add: g)
  then have "month (tableRow loan rate (Num (of_int t))) \<in> month ` set (generateTableData (form st))"
    by (rule imageI)
  then have b: "Num (of_int t) \<in> month ` set (generateTableData (form st))"
    by (simp only: month_tableRow)
  have "getSelectedMonthSummary (selectedMonthEffect st) \<noteq> None"
    using summary_default [OF assms] by simp
  with a b show ?thesis by blast
qed

text \<open>
  A term of 5 months.
\<close>

theorem term_row_exists_witness:
  "loanAmount (form (initialState\<lparr>form := \<lparr>loanAmount = Some (Num 1000),
       months = Some (Num (of_int 5)), interestRatePerMonth = Some (Num 10)\<rparr>\<rparr>))
     = Some (Num 1000)
   \<and> interestRatePerMonth (form (initialState\<lparr>form := \<lparr>loanAmount = Some (Num 1000),
       months = Some (Num (of_int 5)), interestRatePerMonth = Some (Num 10)\<rparr>\<rparr>))
     = Some (Num 10)
   \<and> months (form (initialState\<lparr>form := \<lparr>loanAmount = Some (Num 1000),
       months = Some (Num (of_int 5)), interestRatePerMonth = Some (Num 10)\<rparr>\<rparr>))
     = Some (Num (of_int 5))
   \<and> (1::int) \<le> 5 \<and> (5::int) \<le> 360
   \<and> Num (of_int 5) \<in> month ` set (generateTableData (form (initialState\<lparr>form :=
        \<lparr>loanAmount = Some (Num 1000), months = Some (Num (of_int 5)),
         interestRatePerMonth = Some (Num 10)\<rparr>\<rparr>)))
   \<and> getSelectedMonthSummary (selectedMonthEffect (initialState\<lparr>form :=
        \<lparr>loanAmount = Some (Num 1000), months = Some (Num (of_int 5)),
         interestRatePerMonth = Some (Num 10)\<rparr>\<rparr>)) \<noteq> None"
proof -
  let ?f = "\<lparr>loanAmount = Some (Num 1000), months = Some (Num (of_int 5)),
       interestRatePerMonth = Some (Num 10)\<rparr>"
  let ?st = "initialState\<lparr>form := ?f\<rparr>"
  have h: "loanAmount (form ?st) = Some (Num 1000)"
    "interestRatePerMonth (form ?st) = Some (Num 10)"
    "months (form ?st) = Some (Num (of_int 5))" "(1::int) \<le> 5" "(5::int) \<le> 360"
    by simp_all
  from term_row_exists [OF h] h show ?thesis by blast
qed

text \<open>
  C10 as stated fails in the component as first rendered: the term is 1, no loan amount
  is entered, the schedule is empty and the default focus finds no row.
\<close>

theorem default_term_row_missing_without_principal:
  "months (form initialState) = Some (Num 1)
   \<and> generateTableData (form initialState) = []
   \<and> getSelectedMonthSummary (selectedMonthEffect initialState) = None"
  by (simp add: initialState_def defaultValues_def generateTableData_def
      getSelectedMonthSummary_def selectedMonthEffect_def)

end
